theory Spec2Isabelle
  imports Main "HOL-Library.Sublist"
begin

section \<open>The example script \<open>example_excitation.py\<close>\<close>

text \<open>
  The script assembles a nested configuration literal, reads five input files through
  library calls, populates a process builder and hands it to the workflow engine; a
  command-line wrapper resolves a code label first. The model below makes every
  interaction of the script with its surroundings explicit: the script's functions are
  state transformers over a \<open>world\<close> (the file system and a log of what the script did),
  and the external libraries are parameters (a record \<open>externals\<close>).
\<close>

subsection \<open>The configuration tree\<close>

text \<open>
  A Python value as it occurs in the literal passed to \<open>Dict(dict=...)\<close>: integers,
  float literals (kept as the decimal literal \<open>m * 10^e\<close> that the source writes),
  booleans, strings, lists and dictionaries (in source order).
\<close>

datatype pval =
    PInt int
  | PFloat int int
  | PBool bool
  | PStr string
  | PList "pval list"
  | PDict "(string \<times> pval) list"

text \<open>\<open>d[k]\<close> on a dictionary, \<open>None\<close> where Python raises; and a chain of such subscripts.\<close>

fun dict_get :: "pval \<Rightarrow> string \<Rightarrow> pval option" where
  "dict_get (PDict kvs) k = map_of kvs k"
| "dict_get _ k = None"

fun get_path :: "pval \<Rightarrow> string list \<Rightarrow> pval option" where
  "get_path v [] = Some v"
| "get_path v (k # ks) = (case dict_get v k of None \<Rightarrow> None | Some v' \<Rightarrow> get_path v' ks)"

text \<open>The dictionary literal of lines 44 to 130.\<close>

definition parameters_dict :: pval where
  "parameters_dict = PDict [
    (''FORCE_EVAL'', PDict [
      (''METHOD'', PStr ''Quickstep''),
      (''PROPERTIES'', PDict [
        (''TDDFPT'', PDict [
          (''NSTATES'', PInt 2),
          (''MAX_ITER'', PInt 50),
          (''CONVERGENCE'', PStr ''[eV] 1.0e-5''),
          (''ADMM_KERNEL_CORRECTION_SYMMETRIC'', PBool True)])]),
      (''DFT'', PDict [
        (''BASIS_SET_FILE_NAME'', PList [PStr ''BASIS_ccGRB_UZH'', PStr ''BASIS_ADMM_UZH'']),
        (''POTENTIAL_FILE_NAME'', PStr ''POTENTIAL_UZH''),
        (''QS'', PDict [
          (''EPS_DEFAULT'', PFloat 1 (- 12)),
          (''WF_INTERPOLATION'', PStr ''ps''),
          (''EXTRAPOLATION_ORDER'', PInt 3)]),
        (''MGRID'', PDict [
          (''CUTOFF'', PInt 900),
          (''REL_CUTOFF'', PInt 60)]),
        (''AUXILIARY_DENSITY_MATRIX_METHOD'', PDict [
          (''METHOD'', PStr ''BASIS_PROJECTION''),
          (''ADMM_PURIFICATION_METHOD'', PStr ''NONE''),
          (''EXCH_SCALING_MODEL'', PStr ''NONE''),
          (''EXCH_CORRECTION_FUNC'', PStr ''NONE'')]),
        (''EXCITED_STATES'', PDict [
          (''STATE'', PInt 1)]),
        (''XC'', PDict [
          (''XC_FUNCTIONAL'', PDict [
            (''GGA_C_PBE'', PDict []),
            (''GGA_X_PBE'', PDict [
              (''SCALE'', PFloat 75 (- 2))])]),
          (''HF'', PDict [
            (''FRACTION'', PFloat 25 (- 2)),
            (''HF_INFO'', PDict []),
            (''INTERACTION_POTENTIAL'', PDict [
              (''POTENTIAL_TYPE'', PStr ''TRUNCATED''),
              (''CUTOFF_RADIUS'', PFloat 40 (- 1))]),
            (''SCREENING'', PDict [
              (''EPS_SCHWARZ'', PFloat 1 (- 10)),
              (''SCREEN_ON_INITIAL_P'', PBool False)]),
            (''MEMORY'', PDict [
              (''MAX_MEMORY'', PInt 3000)])])]),
        (''POISSON'', PDict [
          (''PERIODIC'', PStr ''NONE''),
          (''PSOLVER'', PStr ''WAVELET'')])]),
      (''SUBSYS'', PDict [
        (''CELL'', PDict [
          (''ABC'', PStr ''14.0 14.0 14.0''),
          (''PERIODIC'', PStr ''NONE'')]),
        (''TOPOLOGY'', PDict [
          (''CENTER_COORDINATES'', PDict [])]),
        (''KIND'', PList [
          PDict [
            (''_'', PStr ''H''),
            (''BASIS_SET ORB'', PStr ''ccGRB-D-q1''),
            (''BASIS_SET AUX_FIT'', PStr ''admm-dzp-q1''),
            (''POTENTIAL'', PStr ''GTH-PBE0-q1'')],
          PDict [
            (''_'', PStr ''C''),
            (''BASIS_SET ORB'', PStr ''ccGRB-D-q4''),
            (''BASIS_SET AUX_FIT'', PStr ''admm-dzp-q4''),
            (''POTENTIAL'', PStr ''GTH-PBE0-q4'')]])])])]"

subsection \<open>Objects of the external libraries\<close>

text \<open>
  A path is kept as the components given to \<open>os.path.join\<close>. The geometry that
  \<open>ase.io.read\<close> returns and the code object that the lookup returns are opaque to the
  script. The data nodes are containers of what they were built from:
  \<open>StructureData(ase=a)\<close>, \<open>SinglefileData(file=p)\<close> (the path and the content of the file
  read there) and \<open>Dict(dict=d)\<close>.
\<close>

type_synonym path = "string list"

definition os_path_join :: "string \<Rightarrow> string list \<Rightarrow> path" where
  "os_path_join a ps = a # ps"

datatype atoms = Atoms nat

datatype code = Code nat

datatype node =
    StructureData atoms
  | SinglefileData path string
  | Dict pval

text \<open>
  The builder, restricted to the attributes the script assigns:
  \<open>builder.structure\<close>, \<open>.parameters\<close>, \<open>.code\<close>, \<open>.file\<close>,
  \<open>.metadata.options.resources\<close> and \<open>.metadata.options.max_wallclock_seconds\<close>.
  \<open>None\<close> is an attribute that holds no value.
\<close>

record builder_options =
  o_resources :: "(string \<times> int) list option"
  o_max_wallclock_seconds :: "int option"

record builder_metadata =
  m_options :: builder_options

record builder =
  b_structure :: "node option"
  b_parameters :: "node option"
  b_code :: "code option"
  b_file :: "(string \<times> node) list option"
  b_metadata :: builder_metadata

text \<open>
  Exceptions: \<open>NotExistent\<close> (the class the script names in its \<open>except\<close> clause),
  the exception a reader raises where no file exists at a path, \<open>SystemExit\<close> as raised
  by \<open>sys.exit\<close>, and any other exception, by name.
\<close>

datatype exn =
    NotExistent
  | FileNotFound path
  | SystemExit int
  | OtherException string

subsection \<open>The world and the external calls\<close>

text \<open>
  The log records, in order, every line the script prints, every attribute it assigns on
  the builder, and every call it makes into the external libraries that can fail, with
  the exception the call raised, if any. The calls that can fail are the five file reads
  (no file at the path, or a geometry that \<open>ase\<close> rejects), \<open>get_builder\<close>, \<open>run\<close> and the
  lookup of the code label; what they return or raise is given by the environment.
  \<open>print\<close>, the constructors \<open>StructureData\<close> and \<open>Dict\<close> and the assignments on the
  builder are taken to return normally. What the external libraries do inside their
  calls is outside the model: the world holds what the script itself reads and does.
\<close>

datatype call =
    Ase_io_read path
  | New_SinglefileData path
  | Get_from_string string
  | Get_builder code
  | Run builder

datatype event =
    Print string
  | Assign string
  | Call call "exn option"

record world =
  files :: "path \<Rightarrow> string option"
  log :: "event list"

record externals =
  thisdir :: string
  ase_io_read :: "path \<Rightarrow> string \<Rightarrow> exn + atoms"
  get_from_string :: "string \<Rightarrow> exn + code"
  get_builder :: "code \<Rightarrow> exn + builder"
  run :: "builder \<Rightarrow> exn + unit"

type_synonym 'a io = "world \<Rightarrow> (exn + 'a) \<times> world"

definition bind_io :: "'a io \<Rightarrow> ('a \<Rightarrow> 'b io) \<Rightarrow> 'b io" where
  "bind_io m f w = (case m w of (Inl e, w') \<Rightarrow> (Inl e, w') | (Inr x, w') \<Rightarrow> f x w')"

definition emit :: "event \<Rightarrow> unit io" where
  "emit ev w = (Inr (), w\<lparr>log := log w @ [ev]\<rparr>)"

definition print :: "string \<Rightarrow> unit io" where
  "print s = emit (Print s)"

definition raised :: "exn + 'a \<Rightarrow> exn option" where
  "raised r = (case r of Inl e \<Rightarrow> Some e | Inr x \<Rightarrow> None)"

definition external :: "call \<Rightarrow> exn + 'a \<Rightarrow> 'a io" where
  "external c r w = (r, w\<lparr>log := log w @ [Call c (raised r)]\<rparr>)"

text \<open>
  \<open>ase.io.read(p)\<close> opens the file at \<open>p\<close> and parses its content; \<open>SinglefileData(file=p)\<close>
  opens the file at \<open>p\<close> and keeps its content. Neither looks at another path.
\<close>

definition call_ase_io_read :: "externals \<Rightarrow> path \<Rightarrow> atoms io" where
  "call_ase_io_read ext p w =
     external (Ase_io_read p)
       (case files w p of None \<Rightarrow> Inl (FileNotFound p) | Some c \<Rightarrow> ase_io_read ext p c) w"

definition new_SinglefileData :: "path \<Rightarrow> node io" where
  "new_SinglefileData p w =
     external (New_SinglefileData p)
       (case files w p of None \<Rightarrow> Inl (FileNotFound p) | Some c \<Rightarrow> Inr (SinglefileData p c)) w"

definition call_get_builder :: "externals \<Rightarrow> code \<Rightarrow> builder io" where
  "call_get_builder ext c = external (Get_builder c) (get_builder ext c)"

definition call_run :: "externals \<Rightarrow> builder \<Rightarrow> unit io" where
  "call_run ext b = external (Run b) (run ext b)"

definition call_get_from_string :: "externals \<Rightarrow> string \<Rightarrow> code io" where
  "call_get_from_string ext s = external (Get_from_string s) (get_from_string ext s)"

text \<open>An assignment \<open>builder.a = v\<close>: the attribute is logged and the builder updated.\<close>

definition setattr :: "string \<Rightarrow> (builder \<Rightarrow> builder) \<Rightarrow> builder \<Rightarrow> builder io" where
  "setattr a upd b w = (Inr (upd b), w\<lparr>log := log w @ [Assign a]\<rparr>)"

definition sys_exit :: "int \<Rightarrow> 'a io" where
  "sys_exit n w = (Inl (SystemExit n), w)"

subsection \<open>The script\<close>

definition example_excitation :: "externals \<Rightarrow> code \<Rightarrow> unit io" where
  "example_excitation ext cp2k_code =
     bind_io (print ''Testing CP2K excited state ENERGY on acetylene (DFT-ADMM)...'') (\<lambda>_.
     bind_io (call_ase_io_read ext
                (os_path_join (thisdir ext) [''..'', ''files'', ''acetylene.xyz''])) (\<lambda>ase.
     let structure_node = StructureData ase in
     bind_io (new_SinglefileData
                (os_path_join (thisdir ext) [''..'', ''files'', ''BASIS_MOLOPT''])) (\<lambda>basis_file_molopt.
     bind_io (new_SinglefileData
                (os_path_join (thisdir ext) [''..'', ''files'', ''BASIS_ccGRB_UZH''])) (\<lambda>basis_file_grb.
     bind_io (new_SinglefileData
                (os_path_join (thisdir ext) [''..'', ''files'', ''BASIS_ADMM_UZH''])) (\<lambda>basis_file_admm.
     bind_io (new_SinglefileData
                (os_path_join (thisdir ext) [''..'', ''files'', ''GTH_POTENTIALS''])) (\<lambda>pseudo_file.
     let parameters = Dict parameters_dict in
     bind_io (call_get_builder ext cp2k_code) (\<lambda>builder.
     bind_io (setattr ''structure'' (\<lambda>b. b\<lparr>b_structure := Some structure_node\<rparr>) builder) (\<lambda>builder.
     bind_io (setattr ''parameters'' (\<lambda>b. b\<lparr>b_parameters := Some parameters\<rparr>) builder) (\<lambda>builder.
     bind_io (setattr ''code'' (\<lambda>b. b\<lparr>b_code := Some cp2k_code\<rparr>) builder) (\<lambda>builder.
     bind_io (setattr ''file'' (\<lambda>b. b\<lparr>b_file := Some [
                (''basis_molopt'', basis_file_molopt),
                (''basis_grb'', basis_file_grb),
                (''basis_admm'', basis_file_admm),
                (''pseudo'', pseudo_file)]\<rparr>) builder) (\<lambda>builder.
     bind_io (setattr ''metadata.options.resources''
                (\<lambda>b. b\<lparr>b_metadata := (b_metadata b)\<lparr>m_options := (m_options (b_metadata b))\<lparr>
                   o_resources := Some [
                     (''num_machines'', 16),
                     (''num_mpiprocs_per_machine'', 1)]\<rparr>\<rparr>\<rparr>) builder) (\<lambda>builder.
     bind_io (setattr ''metadata.options.max_wallclock_seconds''
                (\<lambda>b. b\<lparr>b_metadata := (b_metadata b)\<lparr>m_options := (m_options (b_metadata b))\<lparr>
                   o_max_wallclock_seconds := Some (1 * 3 * 60)\<rparr>\<rparr>\<rparr>) builder) (\<lambda>builder.
     bind_io (print ''Submitted calculation...'') (\<lambda>_.
     call_run ext builder))))))))))))))"

text \<open>
  \<open>cli\<close>: the \<open>try\<close> block holds the lookup only; \<open>example_excitation\<close> is called after it,
  outside the handler.
\<close>

definition cli :: "externals \<Rightarrow> string \<Rightarrow> unit io" where
  "cli ext codelabel w =
     (case call_get_from_string ext codelabel w of
        (Inl NotExistent, w') \<Rightarrow>
          bind_io (print (''The code '' @ [CHR 0x27] @ codelabel @ [CHR 0x27] @ '' does not exist.''))
            (\<lambda>_. sys_exit 1) w'
      | (Inl e, w') \<Rightarrow> (Inl e, w')
      | (Inr code, w') \<Rightarrow> example_excitation ext code w')"

text \<open>
  \<open>cli()\<close> under \<open>__main__\<close>: the decorators \<open>@click.command('cli')\<close> and
  \<open>@click.argument('codelabel')\<close> declare one required positional argument. Given the
  positional arguments of the command line, click binds the single value to \<open>codelabel\<close>
  and calls the body; with any other number of them it reports a usage error on standard
  error and exits with status 2 before the body runs.
\<close>

definition cli_arguments :: "string list" where
  "cli_arguments = [''codelabel'']"

definition main :: "externals \<Rightarrow> string list \<Rightarrow> unit io" where
  "main ext args =
     (if length args = length cli_arguments then cli ext (hd args) else sys_exit 2)"

text \<open>
  The exit status of the Python process: 0 when the program returns, the argument of
  \<open>sys.exit\<close> when \<open>SystemExit\<close> reaches the top, 1 when another exception does.
\<close>

fun exit_status :: "exn + unit \<Rightarrow> int" where
  "exit_status (Inr u) = 0"
| "exit_status (Inl (SystemExit n)) = n"
| "exit_status (Inl e) = 1"

subsection \<open>Observations on a run\<close>

text \<open>The events a function added to the log, given the worlds before and after.\<close>

definition emitted :: "world \<Rightarrow> world \<Rightarrow> event list" where
  "emitted w w' = drop (length (log w)) (log w')"

definition trace :: "externals \<Rightarrow> code \<Rightarrow> world \<Rightarrow> event list" where
  "trace ext c w = emitted w (snd (example_excitation ext c w))"

definition cli_trace :: "externals \<Rightarrow> string \<Rightarrow> world \<Rightarrow> event list" where
  "cli_trace ext codelabel w = emitted w (snd (cli ext codelabel w))"

text \<open>The outcome of \<open>example_excitation\<close>: its result and the events it adds.\<close>

definition outcome :: "externals \<Rightarrow> code \<Rightarrow> world \<Rightarrow> (exn + unit) \<times> event list" where
  "outcome ext c w = (fst (example_excitation ext c w), trace ext c w)"

text \<open>The builders handed to \<open>run\<close>, the files opened, the attributes assigned.\<close>

fun run_of :: "event \<Rightarrow> builder option" where
  "run_of (Call (Run b) r) = Some b"
| "run_of ev = None"

definition runs :: "event list \<Rightarrow> builder list" where
  "runs evs = List.map_filter run_of evs"

definition submitted :: "externals \<Rightarrow> code \<Rightarrow> world \<Rightarrow> builder list" where
  "submitted ext c w = runs (trace ext c w)"

fun read_of :: "event \<Rightarrow> call option" where
  "read_of (Call (Ase_io_read p) r) = Some (Ase_io_read p)"
| "read_of (Call (New_SinglefileData p) r) = Some (New_SinglefileData p)"
| "read_of ev = None"

definition reads :: "event list \<Rightarrow> call list" where
  "reads evs = List.map_filter read_of evs"

fun assign_of :: "event \<Rightarrow> string option" where
  "assign_of (Assign a) = Some a"
| "assign_of ev = None"

definition assigned :: "event list \<Rightarrow> string list" where
  "assigned evs = List.map_filter assign_of evs"

text \<open>
  The name under which a file node is attached (the last component of the path it was
  read from), and the file names a configuration tree refers to in
  \<open>FORCE_EVAL.DFT.BASIS_SET_FILE_NAME\<close> and \<open>FORCE_EVAL.DFT.POTENTIAL_FILE_NAME\<close>.
\<close>

fun filename :: "node \<Rightarrow> string list" where
  "filename (SinglefileData p c) = (if p = [] then [] else [last p])"
| "filename n = []"

definition attached_names :: "builder \<Rightarrow> string list" where
  "attached_names b = (case b_file b of None \<Rightarrow> [] | Some kvs \<Rightarrow> concat (map (filename \<circ> snd) kvs))"

fun strings_of :: "pval \<Rightarrow> string list" where
  "strings_of (PStr s) = [s]"
| "strings_of (PList vs) = concat (map strings_of vs)"
| "strings_of v = []"

definition names_at :: "pval \<Rightarrow> string list \<Rightarrow> string list" where
  "names_at t ks = (case get_path t ks of None \<Rightarrow> [] | Some v \<Rightarrow> strings_of v)"

definition referenced_names :: "pval \<Rightarrow> string list" where
  "referenced_names t =
     names_at t [''FORCE_EVAL'', ''DFT'', ''BASIS_SET_FILE_NAME'']
     @ names_at t [''FORCE_EVAL'', ''DFT'', ''POTENTIAL_FILE_NAME'']"

text \<open>
  A computation that only appends to the log: it leaves the files as they are and the
  earlier log entries in place.
\<close>

definition appends :: "'a io \<Rightarrow> bool" where
  "appends m = (\<forall>w. files (snd (m w)) = files w \<and> prefix (log w) (log (snd (m w))))"

subsection \<open>Sample environments\<close>

text \<open>
  An installation where the five input files exist, the code \<open>cp2k@localhost\<close> is known
  and the engine accepts the submission; a file system without the input files; an
  engine that rejects the submission.
\<close>

definition demo_builder :: builder where
  "demo_builder = \<lparr>b_structure = None, b_parameters = None, b_code = None, b_file = None,
     b_metadata = \<lparr>m_options = \<lparr>o_resources = None, o_max_wallclock_seconds = None\<rparr>\<rparr>\<rparr>"

definition demo_ext :: externals where
  "demo_ext = \<lparr>thisdir = ''/repo/examples/single_calculations'',
     ase_io_read = (\<lambda>p c. Inr (Atoms 0)),
     get_from_string = (\<lambda>s. if s = ''cp2k@localhost'' then Inr (Code 5)
        else if s = ''cp2k'' then Inl (OtherException ''MultipleObjectsError'')
        else Inl NotExistent),
     get_builder = (\<lambda>c. Inr demo_builder),
     run = (\<lambda>b. Inr ())\<rparr>"

definition failing_ext :: externals where
  "failing_ext = demo_ext\<lparr>run := (\<lambda>b. Inl (OtherException ''InputValidationError''))\<rparr>"

definition demo_files :: "path \<Rightarrow> string option" where
  "demo_files = map_of (map (\<lambda>n. ([''/repo/examples/single_calculations'', ''..'', ''files'', n], ''data''))
     [''acetylene.xyz'', ''BASIS_MOLOPT'', ''BASIS_ccGRB_UZH'', ''BASIS_ADMM_UZH'', ''GTH_POTENTIALS''])"

definition demo_world :: world where
  "demo_world = \<lparr>files = demo_files, log = []\<rparr>"

definition bare_world :: world where
  "bare_world = \<lparr>files = (\<lambda>p. None), log = []\<rparr>"

text \<open>The builder that the script submits in the first of these environments.\<close>

definition demo_submission :: builder where
  "demo_submission = \<lparr>b_structure = Some (StructureData (Atoms 0)),
     b_parameters = Some (Dict parameters_dict),
     b_code = Some (Code 5),
     b_file = Some [
       (''basis_molopt'', SinglefileData [''/repo/examples/single_calculations'', ''..'', ''files'', ''BASIS_MOLOPT''] ''data''),
       (''basis_grb'', SinglefileData [''/repo/examples/single_calculations'', ''..'', ''files'', ''BASIS_ccGRB_UZH''] ''data''),
       (''basis_admm'', SinglefileData [''/repo/examples/single_calculations'', ''..'', ''files'', ''BASIS_ADMM_UZH''] ''data''),
       (''pseudo'', SinglefileData [''/repo/examples/single_calculations'', ''..'', ''files'', ''GTH_POTENTIALS''] ''data'')],
     b_metadata = \<lparr>m_options = \<lparr>
       o_resources = Some [(''num_machines'', 16), (''num_mpiprocs_per_machine'', 1)],
       o_max_wallclock_seconds = Some 180\<rparr>\<rparr>\<rparr>"

section \<open>Properties\<close>

subsection \<open>How the primitives compose\<close>

lemma bind_print [simp]:
  "bind_io (print s) f w = f () (w\<lparr>log := log w @ [Print s]\<rparr>)"
  by (simp add: bind_io_def print_def emit_def)

lemma bind_setattr [simp]:
  "bind_io (setattr a upd b) f w = f (upd b) (w\<lparr>log := log w @ [Assign a]\<rparr>)"
  by (simp add: bind_io_def setattr_def)

lemma bind_ase_io_read_missing:
  "files w p = None \<Longrightarrow> bind_io (call_ase_io_read ext p) f w =
     (Inl (FileNotFound p), w\<lparr>log := log w @ [Call (Ase_io_read p) (Some (FileNotFound p))]\<rparr>)"
  by (simp add: bind_io_def call_ase_io_read_def external_def raised_def)

lemma bind_ase_io_read_raises:
  "files w p = Some s \<Longrightarrow> ase_io_read ext p s = Inl e \<Longrightarrow> bind_io (call_ase_io_read ext p) f w =
     (Inl e, w\<lparr>log := log w @ [Call (Ase_io_read p) (Some e)]\<rparr>)"
  by (simp add: bind_io_def call_ase_io_read_def external_def raised_def)

lemma bind_ase_io_read_returns:
  "files w p = Some s \<Longrightarrow> ase_io_read ext p s = Inr a \<Longrightarrow> bind_io (call_ase_io_read ext p) f w =
     f a (w\<lparr>log := log w @ [Call (Ase_io_read p) None]\<rparr>)"
  by (simp add: bind_io_def call_ase_io_read_def external_def raised_def)

lemma bind_SinglefileData_missing:
  "files w p = None \<Longrightarrow> bind_io (new_SinglefileData p) f w =
     (Inl (FileNotFound p), w\<lparr>log := log w @ [Call (New_SinglefileData p) (Some (FileNotFound p))]\<rparr>)"
  by (simp add: bind_io_def new_SinglefileData_def external_def raised_def)

lemma bind_SinglefileData_returns:
  "files w p = Some s \<Longrightarrow> bind_io (new_SinglefileData p) f w =
     f (SinglefileData p s) (w\<lparr>log := log w @ [Call (New_SinglefileData p) None]\<rparr>)"
  by (simp add: bind_io_def new_SinglefileData_def external_def raised_def)

lemma bind_get_builder_raises:
  "get_builder ext c = Inl e \<Longrightarrow> bind_io (call_get_builder ext c) f w =
     (Inl e, w\<lparr>log := log w @ [Call (Get_builder c) (Some e)]\<rparr>)"
  by (simp add: bind_io_def call_get_builder_def external_def raised_def)

lemma bind_get_builder_returns:
  "get_builder ext c = Inr b \<Longrightarrow> bind_io (call_get_builder ext c) f w =
     f b (w\<lparr>log := log w @ [Call (Get_builder c) None]\<rparr>)"
  by (simp add: bind_io_def call_get_builder_def external_def raised_def)

lemma call_run_eq:
  "call_run ext b w = (run ext b, w\<lparr>log := log w @ [Call (Run b) (raised (run ext b))]\<rparr>)"
  by (simp add: call_run_def external_def)

lemmas step_simps = bind_ase_io_read_missing bind_ase_io_read_raises bind_ase_io_read_returns
  bind_SinglefileData_missing bind_SinglefileData_returns bind_get_builder_raises
  bind_get_builder_returns call_run_eq os_path_join_def Let_def

lemma outcome_cases:
  fixes ext :: externals and c :: code and w :: world
  defines "T \<equiv> Print ''Testing CP2K excited state ENERGY on acetylene (DFT-ADMM)...''"
    and "p0 \<equiv> [thisdir ext, ''..'', ''files'', ''acetylene.xyz'']"
    and "p1 \<equiv> [thisdir ext, ''..'', ''files'', ''BASIS_MOLOPT'']"
    and "p2 \<equiv> [thisdir ext, ''..'', ''files'', ''BASIS_ccGRB_UZH'']"
    and "p3 \<equiv> [thisdir ext, ''..'', ''files'', ''BASIS_ADMM_UZH'']"
    and "p4 \<equiv> [thisdir ext, ''..'', ''files'', ''GTH_POTENTIALS'']"
  obtains
    (geometry_missing) "files w p0 = None"
      "outcome ext c w = (Inl (FileNotFound p0), [T, Call (Ase_io_read p0) (Some (FileNotFound p0))])"
  | (geometry_rejected) s0 e where "files w p0 = Some s0" "ase_io_read ext p0 s0 = Inl e"
      "outcome ext c w = (Inl e, [T, Call (Ase_io_read p0) (Some e)])"
  | (molopt_missing) s0 a where "files w p0 = Some s0" "ase_io_read ext p0 s0 = Inr a"
      "files w p1 = None"
      "outcome ext c w = (Inl (FileNotFound p1),
         [T, Call (Ase_io_read p0) None, Call (New_SinglefileData p1) (Some (FileNotFound p1))])"
  | (grb_missing) s0 a s1 where "files w p0 = Some s0" "ase_io_read ext p0 s0 = Inr a"
      "files w p1 = Some s1" "files w p2 = None"
      "outcome ext c w = (Inl (FileNotFound p2),
         [T, Call (Ase_io_read p0) None, Call (New_SinglefileData p1) None,
          Call (New_SinglefileData p2) (Some (FileNotFound p2))])"
  | (admm_missing) s0 a s1 s2 where "files w p0 = Some s0" "ase_io_read ext p0 s0 = Inr a"
      "files w p1 = Some s1" "files w p2 = Some s2" "files w p3 = None"
      "outcome ext c w = (Inl (FileNotFound p3),
         [T, Call (Ase_io_read p0) None, Call (New_SinglefileData p1) None,
          Call (New_SinglefileData p2) None, Call (New_SinglefileData p3) (Some (FileNotFound p3))])"
  | (pseudo_missing) s0 a s1 s2 s3 where "files w p0 = Some s0" "ase_io_read ext p0 s0 = Inr a"
      "files w p1 = Some s1" "files w p2 = Some s2" "files w p3 = Some s3" "files w p4 = None"
      "outcome ext c w = (Inl (FileNotFound p4),
         [T, Call (Ase_io_read p0) None, Call (New_SinglefileData p1) None,
          Call (New_SinglefileData p2) None, Call (New_SinglefileData p3) None,
          Call (New_SinglefileData p4) (Some (FileNotFound p4))])"
  | (no_builder) s0 a s1 s2 s3 s4 e where "files w p0 = Some s0" "ase_io_read ext p0 s0 = Inr a"
      "files w p1 = Some s1" "files w p2 = Some s2" "files w p3 = Some s3" "files w p4 = Some s4"
      "get_builder ext c = Inl e"
      "outcome ext c w = (Inl e,
         [T, Call (Ase_io_read p0) None, Call (New_SinglefileData p1) None,
          Call (New_SinglefileData p2) None, Call (New_SinglefileData p3) None,
          Call (New_SinglefileData p4) None, Call (Get_builder c) (Some e)])"
  | (run_called) s0 a s1 s2 s3 s4 b0 b where "files w p0 = Some s0" "ase_io_read ext p0 s0 = Inr a"
      "files w p1 = Some s1" "files w p2 = Some s2" "files w p3 = Some s3" "files w p4 = Some s4"
      "get_builder ext c = Inr b0"
      "b = b0\<lparr>b_structure := Some (StructureData a),
              b_parameters := Some (Dict parameters_dict),
              b_code := Some c,
              b_file := Some [(''basis_molopt'', SinglefileData p1 s1),
                (''basis_grb'', SinglefileData p2 s2),
                (''basis_admm'', SinglefileData p3 s3),
                (''pseudo'', SinglefileData p4 s4)],
              b_metadata := (b_metadata b0)\<lparr>m_options := (m_options (b_metadata b0))\<lparr>
                o_resources := Some [(''num_machines'', 16), (''num_mpiprocs_per_machine'', 1)],
                o_max_wallclock_seconds := Some 180\<rparr>\<rparr>\<rparr>"
      "outcome ext c w = (run ext b,
         [T, Call (Ase_io_read p0) None, Call (New_SinglefileData p1) None,
          Call (New_SinglefileData p2) None, Call (New_SinglefileData p3) None,
          Call (New_SinglefileData p4) None, Call (Get_builder c) None,
          Assign ''structure'', Assign ''parameters'', Assign ''code'', Assign ''file'',
          Assign ''metadata.options.resources'', Assign ''metadata.options.max_wallclock_seconds'',
          Print ''Submitted calculation...'', Call (Run b) (raised (run ext b))])"
proof -
  note defs = outcome_def trace_def emitted_def example_excitation_def T_def p0_def p1_def
    p2_def p3_def p4_def
  show thesis
  proof (cases "files w p0")
    case None
    then show thesis using geometry_missing by (simp add: defs step_simps)
  next
    case f0: (Some s0)
    show thesis
    proof (cases "ase_io_read ext p0 s0")
      case (Inl e)
      with f0 show thesis using geometry_rejected by (simp add: defs step_simps)
    next
      case r0: (Inr a)
      show thesis
      proof (cases "files w p1")
        case None
        with f0 r0 show thesis using molopt_missing by (simp add: defs step_simps)
      next
        case f1: (Some s1)
        show thesis
        proof (cases "files w p2")
          case None
          with f0 r0 f1 show thesis using grb_missing by (simp add: defs step_simps)
        next
          case f2: (Some s2)
          show thesis
          proof (cases "files w p3")
            case None
            with f0 r0 f1 f2 show thesis using admm_missing by (simp add: defs step_simps)
          next
            case f3: (Some s3)
            show thesis
            proof (cases "files w p4")
              case None
              with f0 r0 f1 f2 f3 show thesis using pseudo_missing
                by (simp add: defs step_simps)
            next
              case f4: (Some s4)
              show thesis
              proof (cases "get_builder ext c")
                case (Inl e)
                with f0 r0 f1 f2 f3 f4 show thesis using no_builder
                  by (simp add: defs step_simps)
              next
                case (Inr b0)
                with f0 r0 f1 f2 f3 f4 show thesis using run_called
                  by (simp add: defs step_simps)
              qed
            qed
          qed
        qed
      qed
    qed
  qed
qed

subsection \<open>The script only appends to the log\<close>

lemma appendsI:
  "(\<And>w. files (snd (m w)) = files w \<and> prefix (log w) (log (snd (m w)))) \<Longrightarrow> appends m"
  by (simp add: appends_def)

lemma appendsD:
  "appends m \<Longrightarrow> snd (m w) = w\<lparr>log := log w @ emitted w (snd (m w))\<rparr>"
  by (auto simp: appends_def emitted_def prefix_def dest!: spec [of _ w])

lemma appends_bind:
  assumes "appends m" and "\<And>x. appends (f x)"
  shows "appends (bind_io m f)"
proof (rule appendsI)
  fix w
  obtain r w' where mw: "m w = (r, w')" by (cases "m w")
  from assms(1) have w': "files w' = files w \<and> prefix (log w) (log w')"
    using mw by (auto simp: appends_def dest: spec [of _ w])
  show "files (snd (bind_io m f w)) = files w \<and> prefix (log w) (log (snd (bind_io m f w)))"
  proof (cases r)
    case (Inl e)
    with mw w' show ?thesis by (simp add: bind_io_def)
  next
    case (Inr x)
    from assms(2) [of x]
    have "files (snd (f x w')) = files w' \<and> prefix (log w') (log (snd (f x w')))"
      by (simp add: appends_def)
    with Inr mw w' show ?thesis
      by (auto simp: bind_io_def intro: prefix_order.trans)
  qed
qed

lemma appends_print: "appends (print s)"
  by (rule appendsI) (simp add: print_def emit_def)

lemma appends_external: "appends (external k r)"
  by (rule appendsI) (simp add: external_def)

lemma appends_setattr: "appends (setattr a upd b)"
  by (rule appendsI) (simp add: setattr_def)

lemma appends_sys_exit: "appends (sys_exit n)"
  by (rule appendsI) (simp add: sys_exit_def)

lemma appends_ase_io_read: "appends (call_ase_io_read ext p)"
  by (rule appendsI) (simp add: call_ase_io_read_def external_def)

lemma appends_SinglefileData: "appends (new_SinglefileData p)"
  by (rule appendsI) (simp add: new_SinglefileData_def external_def)

lemmas appends_intros = appends_bind appends_print appends_setattr appends_sys_exit
  appends_ase_io_read appends_SinglefileData appends_external

lemma appends_example_excitation: "appends (example_excitation ext c)"
  unfolding example_excitation_def Let_def call_get_builder_def call_run_def
  by (intro appends_intros)

lemma cli_unfold:
  "cli ext l =
     bind_io (\<lambda>w. (Inr (get_from_string ext l), snd (call_get_from_string ext l w)))
       (\<lambda>r. case r of
          Inl NotExistent \<Rightarrow>
            bind_io (print (''The code '' @ [CHR 0x27] @ l @ [CHR 0x27] @ '' does not exist.''))
              (\<lambda>_. sys_exit 1)
        | Inl e \<Rightarrow> (\<lambda>w. (Inl e, w))
        | Inr code \<Rightarrow> example_excitation ext code)"
  by (rule ext) (simp add: cli_def bind_io_def call_get_from_string_def external_def
      split: sum.splits exn.splits)

lemma appends_cli: "appends (cli ext l)"
  unfolding cli_unfold
  apply (rule appends_bind)
   apply (rule appendsI, simp add: call_get_from_string_def external_def)
  apply (simp split: sum.splits exn.splits)
  apply (intro conjI allI impI appends_intros appends_example_excitation)
     apply (rule appendsI, simp)+
  done

lemma appends_main: "appends (main ext args)"
  by (simp add: main_def appends_cli appends_sys_exit)

lemma example_excitation_world:
  "snd (example_excitation ext c w) = w\<lparr>log := log w @ trace ext c w\<rparr>"
  unfolding trace_def by (rule appendsD [OF appends_example_excitation])

lemma cli_world: "snd (cli ext l w) = w\<lparr>log := log w @ cli_trace ext l w\<rparr>"
  unfolding cli_trace_def by (rule appendsD [OF appends_cli])

subsection \<open>The three ways through \<open>cli\<close>\<close>

lemma cli_not_existent:
  "get_from_string ext l = Inl NotExistent \<Longrightarrow>
   cli ext l w = (Inl (SystemExit 1), w\<lparr>log := log w @
     [Call (Get_from_string l) (Some NotExistent),
      Print (''The code '' @ [CHR 0x27] @ l @ [CHR 0x27] @ '' does not exist.'')]\<rparr>)"
  by (simp add: cli_def call_get_from_string_def external_def raised_def sys_exit_def)

lemma cli_other_exception:
  "get_from_string ext l = Inl e \<Longrightarrow> e \<noteq> NotExistent \<Longrightarrow>
   cli ext l w = (Inl e, w\<lparr>log := log w @ [Call (Get_from_string l) (Some e)]\<rparr>)"
  by (cases e) (simp_all add: cli_def call_get_from_string_def external_def raised_def)

lemma cli_found:
  "get_from_string ext l = Inr c \<Longrightarrow>
   cli ext l w = example_excitation ext c (w\<lparr>log := log w @ [Call (Get_from_string l) None]\<rparr>)"
  by (simp add: cli_def call_get_from_string_def external_def raised_def)

lemma emitted_append [simp]: "emitted w (w\<lparr>log := log w @ evs\<rparr>) = evs"
  by (simp add: emitted_def)

lemma cli_trace_found:
  "get_from_string ext l = Inr c \<Longrightarrow>
   cli_trace ext l w = Call (Get_from_string l) None
     # trace ext c (w\<lparr>log := log w @ [Call (Get_from_string l) None]\<rparr>)"
  by (simp add: cli_trace_def cli_found example_excitation_world emitted_def)

lemma main_one_argument: "main ext [l] w = cli ext l w"
  by (simp add: main_def cli_arguments_def)

lemma main_usage_error: "length args \<noteq> 1 \<Longrightarrow> main ext args w = (Inl (SystemExit 2), w)"
  by (simp add: main_def cli_arguments_def sys_exit_def)

subsection \<open>Runs in the sample environments\<close>

lemmas demo_defs = demo_ext_def failing_ext_def demo_world_def bare_world_def demo_files_def
  demo_submission_def demo_builder_def

lemma demo_outcome:
  "outcome demo_ext (Code 5) demo_world = (Inr (),
     [Print ''Testing CP2K excited state ENERGY on acetylene (DFT-ADMM)...'',
      Call (Ase_io_read [''/repo/examples/single_calculations'', ''..'', ''files'', ''acetylene.xyz'']) None,
      Call (New_SinglefileData [''/repo/examples/single_calculations'', ''..'', ''files'', ''BASIS_MOLOPT'']) None,
      Call (New_SinglefileData [''/repo/examples/single_calculations'', ''..'', ''files'', ''BASIS_ccGRB_UZH'']) None,
      Call (New_SinglefileData [''/repo/examples/single_calculations'', ''..'', ''files'', ''BASIS_ADMM_UZH'']) None,
      Call (New_SinglefileData [''/repo/examples/single_calculations'', ''..'', ''files'', ''GTH_POTENTIALS'']) None,
      Call (Get_builder (Code 5)) None,
      Assign ''structure'', Assign ''parameters'', Assign ''code'', Assign ''file'',
      Assign ''metadata.options.resources'', Assign ''metadata.options.max_wallclock_seconds'',
      Print ''Submitted calculation...'',
      Call (Run demo_submission) None])"
  by (cases rule: outcome_cases [of demo_world demo_ext "Code 5"])
     (simp_all add: demo_defs raised_def)

lemma bare_outcome:
  "outcome demo_ext (Code 5) bare_world = (Inl (FileNotFound [''/repo/examples/single_calculations'', ''..'', ''files'', ''acetylene.xyz'']),
     [Print ''Testing CP2K excited state ENERGY on acetylene (DFT-ADMM)...'',
      Call (Ase_io_read [''/repo/examples/single_calculations'', ''..'', ''files'', ''acetylene.xyz''])
        (Some (FileNotFound [''/repo/examples/single_calculations'', ''..'', ''files'', ''acetylene.xyz'']))])"
  by (cases rule: outcome_cases [of bare_world demo_ext "Code 5"])
     (simp_all add: demo_defs raised_def)

lemma failing_outcome:
  "fst (outcome failing_ext (Code 5) demo_world) = Inl (OtherException ''InputValidationError'')"
  "last (snd (outcome failing_ext (Code 5) demo_world)) =
     Call (Run demo_submission) (Some (OtherException ''InputValidationError''))"
  by (cases rule: outcome_cases [of demo_world failing_ext "Code 5"];
      simp add: demo_defs raised_def)+

subsection \<open>The outcome depends on the five input files only\<close>

lemma outcome_depends_on_inputs:
  assumes "\<forall>p \<in> set [[thisdir ext, ''..'', ''files'', ''acetylene.xyz''],
      [thisdir ext, ''..'', ''files'', ''BASIS_MOLOPT''],
      [thisdir ext, ''..'', ''files'', ''BASIS_ccGRB_UZH''],
      [thisdir ext, ''..'', ''files'', ''BASIS_ADMM_UZH''],
      [thisdir ext, ''..'', ''files'', ''GTH_POTENTIALS'']]. files w' p = files w p"
  shows "outcome ext c w' = outcome ext c w"
proof -
  from assms have eqs:
    "files w' [thisdir ext, ''..'', ''files'', ''acetylene.xyz''] = files w [thisdir ext, ''..'', ''files'', ''acetylene.xyz'']"
    "files w' [thisdir ext, ''..'', ''files'', ''BASIS_MOLOPT''] = files w [thisdir ext, ''..'', ''files'', ''BASIS_MOLOPT'']"
    "files w' [thisdir ext, ''..'', ''files'', ''BASIS_ccGRB_UZH''] = files w [thisdir ext, ''..'', ''files'', ''BASIS_ccGRB_UZH'']"
    "files w' [thisdir ext, ''..'', ''files'', ''BASIS_ADMM_UZH''] = files w [thisdir ext, ''..'', ''files'', ''BASIS_ADMM_UZH'']"
    "files w' [thisdir ext, ''..'', ''files'', ''GTH_POTENTIALS''] = files w [thisdir ext, ''..'', ''files'', ''GTH_POTENTIALS'']"
    by simp_all
  show ?thesis
    by (cases rule: outcome_cases [of w ext c]; cases rule: outcome_cases [of w' ext c];
        simp add: eqs)
qed

lemma outcome_log_irrelevant [simp]: "outcome ext c (w\<lparr>log := evs\<rparr>) = outcome ext c w"
  by (rule outcome_depends_on_inputs) simp

subsection \<open>What is submitted\<close>

lemmas observe_defs = outcome_def submitted_def runs_def reads_def assigned_def

lemma submitted_builder:
  assumes "b \<in> set (submitted ext c w)"
  shows "b_parameters b = Some (Dict parameters_dict)"
    and "b_code b = Some c"
    and "\<exists>a. b_structure b = Some (StructureData a)"
    and "\<exists>s1 s2 s3 s4. b_file b = Some [
          (''basis_molopt'', SinglefileData [thisdir ext, ''..'', ''files'', ''BASIS_MOLOPT''] s1),
          (''basis_grb'', SinglefileData [thisdir ext, ''..'', ''files'', ''BASIS_ccGRB_UZH''] s2),
          (''basis_admm'', SinglefileData [thisdir ext, ''..'', ''files'', ''BASIS_ADMM_UZH''] s3),
          (''pseudo'', SinglefileData [thisdir ext, ''..'', ''files'', ''GTH_POTENTIALS''] s4)]"
    and "o_resources (m_options (b_metadata b)) =
          Some [(''num_machines'', 16), (''num_mpiprocs_per_machine'', 1)]"
    and "o_max_wallclock_seconds (m_options (b_metadata b)) = Some 180"
  using assms
  by (cases rule: outcome_cases [of w ext c]; simp add: observe_defs)+

lemma demo_submitted: "submitted demo_ext (Code 5) demo_world = [demo_submission]"
  using demo_outcome by (simp add: observe_defs)

lemma bare_submitted: "submitted demo_ext (Code 5) bare_world = []"
  using bare_outcome by (simp add: observe_defs)

lemma trace_log_irrelevant [simp]: "trace ext c (w\<lparr>log := evs\<rparr>) = trace ext c w"
  using outcome_log_irrelevant [of ext c evs w] by (simp add: outcome_def)

lemma result_log_irrelevant [simp]:
  "fst (example_excitation ext c (w\<lparr>log := evs\<rparr>)) = fst (example_excitation ext c w)"
  using outcome_log_irrelevant [of ext c evs w] by (simp add: outcome_def)

section \<open>The claims of the specification\<close>

subsection \<open>The configuration tree and the builder\<close>

text \<open>
  Claim C6. The configuration tree holds the plane-wave cutoff
  \<open>FORCE_EVAL.DFT.MGRID.CUTOFF = 900\<close> with \<open>REL_CUTOFF = 60\<close>, and this tree is the
  one inside the \<open>Dict\<close> of every builder that \<open>example_excitation\<close> submits.
\<close>

theorem C6_cutoff:
  "get_path parameters_dict [''FORCE_EVAL'', ''DFT'', ''MGRID'', ''CUTOFF''] = Some (PInt 900)
   \<and> get_path parameters_dict [''FORCE_EVAL'', ''DFT'', ''MGRID'', ''REL_CUTOFF''] = Some (PInt 60)
   \<and> (\<forall>b \<in> set (submitted ext c w). b_parameters b = Some (Dict parameters_dict))"
  by (simp add: parameters_dict_def submitted_builder(1))

text \<open>In the sample installation a builder is submitted, and it carries that tree.\<close>

theorem C6_cutoff_witness:
  "demo_submission \<in> set (submitted demo_ext (Code 5) demo_world)
   \<and> b_parameters demo_submission = Some (Dict parameters_dict)
   \<and> get_path parameters_dict [''FORCE_EVAL'', ''DFT'', ''MGRID'', ''CUTOFF''] = Some (PInt 900)"
  using C6_cutoff [of demo_ext "Code 5" demo_world] by (simp add: demo_submitted)

text \<open>
  Claim C1, as amended. The tree submitted holds the number of excited states
  \<open>FORCE_EVAL.PROPERTIES.TDDFPT.NSTATES = 2\<close>; the literal 1 is the value of
  \<open>FORCE_EVAL.DFT.EXCITED_STATES.STATE\<close>, the excited state selected.
\<close>

theorem C1_excited_states:
  "get_path parameters_dict [''FORCE_EVAL'', ''PROPERTIES'', ''TDDFPT'', ''NSTATES''] = Some (PInt 2)
   \<and> get_path parameters_dict [''FORCE_EVAL'', ''DFT'', ''EXCITED_STATES'', ''STATE''] = Some (PInt 1)
   \<and> (\<forall>b \<in> set (submitted ext c w). b_parameters b = Some (Dict parameters_dict))"
  by (simp add: parameters_dict_def submitted_builder(1))

text \<open>In the sample installation a builder is submitted, and it carries that tree.\<close>

theorem C1_excited_states_witness:
  "demo_submission \<in> set (submitted demo_ext (Code 5) demo_world)
   \<and> b_parameters demo_submission = Some (Dict parameters_dict)
   \<and> get_path parameters_dict [''FORCE_EVAL'', ''PROPERTIES'', ''TDDFPT'', ''NSTATES''] = Some (PInt 2)
   \<and> get_path parameters_dict [''FORCE_EVAL'', ''DFT'', ''EXCITED_STATES'', ''STATE''] = Some (PInt 1)"
  using C1_excited_states [of demo_ext "Code 5" demo_world] by (simp add: demo_submitted)

text \<open>
  Claim C1, as stated, fails: the entry of the tree for the number of excited states,
  \<open>NSTATES\<close>, is not 1.
\<close>

theorem C1_number_of_states_counterexample:
  "get_path parameters_dict [''FORCE_EVAL'', ''PROPERTIES'', ''TDDFPT'', ''NSTATES''] \<noteq> Some (PInt 1)"
  by (simp add: parameters_dict_def)

text \<open>
  Claim C10. Every builder submitted carries a file dictionary with exactly the keys
  \<open>basis_molopt\<close>, \<open>basis_grb\<close>, \<open>basis_admm\<close>, \<open>pseudo\<close> (in this order), the resources
  \<open>num_machines = 16\<close> and \<open>num_mpiprocs_per_machine = 1\<close>, and
  \<open>max_wallclock_seconds = 180\<close>, which is \<open>1 * 3 * 60\<close>.
\<close>

theorem C10_resource_options:
  "\<forall>b \<in> set (submitted ext c w).
     (\<exists>kvs. b_file b = Some kvs
        \<and> map fst kvs = [''basis_molopt'', ''basis_grb'', ''basis_admm'', ''pseudo''])
     \<and> o_resources (m_options (b_metadata b)) =
          Some [(''num_machines'', 16), (''num_mpiprocs_per_machine'', 1)]
     \<and> o_max_wallclock_seconds (m_options (b_metadata b)) = Some 180
     \<and> (180 :: int) = 1 * 3 * 60"
proof
  fix b assume b: "b \<in> set (submitted ext c w)"
  from submitted_builder(4) [OF b] obtain kvs where
    "b_file b = Some kvs" "map fst kvs = [''basis_molopt'', ''basis_grb'', ''basis_admm'', ''pseudo'']"
    by auto
  with submitted_builder(5,6) [OF b]
  show "(\<exists>kvs. b_file b = Some kvs
        \<and> map fst kvs = [''basis_molopt'', ''basis_grb'', ''basis_admm'', ''pseudo''])
     \<and> o_resources (m_options (b_metadata b)) =
          Some [(''num_machines'', 16), (''num_mpiprocs_per_machine'', 1)]
     \<and> o_max_wallclock_seconds (m_options (b_metadata b)) = Some 180
     \<and> (180 :: int) = 1 * 3 * 60"
    by simp
qed

text \<open>The builder submitted in the sample installation has these options.\<close>

theorem C10_resource_options_witness:
  "demo_submission \<in> set (submitted demo_ext (Code 5) demo_world)
   \<and> map fst (the (b_file demo_submission)) = [''basis_molopt'', ''basis_grb'', ''basis_admm'', ''pseudo'']
   \<and> o_resources (m_options (b_metadata demo_submission)) =
          Some [(''num_machines'', 16), (''num_mpiprocs_per_machine'', 1)]
   \<and> o_max_wallclock_seconds (m_options (b_metadata demo_submission)) = Some 180"
  using C10_resource_options [of demo_ext "Code 5" demo_world]
  by (auto simp add: demo_submitted)

text \<open>
  Claim C9. In every builder submitted, the tree names the basis-set files
  \<open>BASIS_ccGRB_UZH\<close> and \<open>BASIS_ADMM_UZH\<close> and the potential file \<open>POTENTIAL_UZH\<close>, while
  the files attached are \<open>BASIS_MOLOPT\<close>, \<open>BASIS_ccGRB_UZH\<close>, \<open>BASIS_ADMM_UZH\<close> and
  \<open>GTH_POTENTIALS\<close>: \<open>BASIS_MOLOPT\<close> and \<open>GTH_POTENTIALS\<close> are attached and not named,
  \<open>POTENTIAL_UZH\<close> is named and not attached, the attached files strictly include the
  basis-set files named, and the two sets of names differ.
\<close>

theorem C9_file_names:
  "\<forall>b \<in> set (submitted ext c w). \<exists>t.
     b_parameters b = Some (Dict t)
     \<and> get_path t [''FORCE_EVAL'', ''DFT'', ''BASIS_SET_FILE_NAME'']
         = Some (PList [PStr ''BASIS_ccGRB_UZH'', PStr ''BASIS_ADMM_UZH''])
     \<and> get_path t [''FORCE_EVAL'', ''DFT'', ''POTENTIAL_FILE_NAME''] = Some (PStr ''POTENTIAL_UZH'')
     \<and> attached_names b = [''BASIS_MOLOPT'', ''BASIS_ccGRB_UZH'', ''BASIS_ADMM_UZH'', ''GTH_POTENTIALS'']
     \<and> referenced_names t = [''BASIS_ccGRB_UZH'', ''BASIS_ADMM_UZH'', ''POTENTIAL_UZH'']
     \<and> ''BASIS_MOLOPT'' \<in> set (attached_names b) - set (referenced_names t)
     \<and> ''GTH_POTENTIALS'' \<in> set (attached_names b) - set (referenced_names t)
     \<and> ''POTENTIAL_UZH'' \<in> set (referenced_names t) - set (attached_names b)
     \<and> set (names_at t [''FORCE_EVAL'', ''DFT'', ''BASIS_SET_FILE_NAME'']) \<subset> set (attached_names b)
     \<and> set (referenced_names t) \<noteq> set (attached_names b)"
proof
  fix b assume b: "b \<in> set (submitted ext c w)"
  have names: "attached_names b = [''BASIS_MOLOPT'', ''BASIS_ccGRB_UZH'', ''BASIS_ADMM_UZH'', ''GTH_POTENTIALS'']"
    using submitted_builder(4) [OF b] by (auto simp: attached_names_def)
  have basis: "get_path parameters_dict [''FORCE_EVAL'', ''DFT'', ''BASIS_SET_FILE_NAME'']
         = Some (PList [PStr ''BASIS_ccGRB_UZH'', PStr ''BASIS_ADMM_UZH''])"
    by (simp add: parameters_dict_def)
  have pot: "get_path parameters_dict [''FORCE_EVAL'', ''DFT'', ''POTENTIAL_FILE_NAME''] = Some (PStr ''POTENTIAL_UZH'')"
    by (simp add: parameters_dict_def)
  have basis_names: "names_at parameters_dict [''FORCE_EVAL'', ''DFT'', ''BASIS_SET_FILE_NAME'']
      = [''BASIS_ccGRB_UZH'', ''BASIS_ADMM_UZH'']"
    unfolding names_at_def basis by simp
  have refs: "referenced_names parameters_dict = [''BASIS_ccGRB_UZH'', ''BASIS_ADMM_UZH'', ''POTENTIAL_UZH'']"
    unfolding referenced_names_def names_at_def basis pot by simp
  have "b_parameters b = Some (Dict parameters_dict)
     \<and> get_path parameters_dict [''FORCE_EVAL'', ''DFT'', ''BASIS_SET_FILE_NAME'']
         = Some (PList [PStr ''BASIS_ccGRB_UZH'', PStr ''BASIS_ADMM_UZH''])
     \<and> get_path parameters_dict [''FORCE_EVAL'', ''DFT'', ''POTENTIAL_FILE_NAME''] = Some (PStr ''POTENTIAL_UZH'')
     \<and> attached_names b = [''BASIS_MOLOPT'', ''BASIS_ccGRB_UZH'', ''BASIS_ADMM_UZH'', ''GTH_POTENTIALS'']
     \<and> referenced_names parameters_dict = [''BASIS_ccGRB_UZH'', ''BASIS_ADMM_UZH'', ''POTENTIAL_UZH'']
     \<and> ''BASIS_MOLOPT'' \<in> set (attached_names b) - set (referenced_names parameters_dict)
     \<and> ''GTH_POTENTIALS'' \<in> set (attached_names b) - set (referenced_names parameters_dict)
     \<and> ''POTENTIAL_UZH'' \<in> set (referenced_names parameters_dict) - set (attached_names b)
     \<and> set (names_at parameters_dict [''FORCE_EVAL'', ''DFT'', ''BASIS_SET_FILE_NAME'']) \<subset> set (attached_names b)
     \<and> set (referenced_names parameters_dict) \<noteq> set (attached_names b)"
  proof -
    have "\<not> set [''BASIS_MOLOPT'', ''BASIS_ccGRB_UZH'', ''BASIS_ADMM_UZH'', ''GTH_POTENTIALS'']
        \<subseteq> set [''BASIS_ccGRB_UZH'', ''BASIS_ADMM_UZH'']"
      by simp
    then have strict: "set [''BASIS_ccGRB_UZH'', ''BASIS_ADMM_UZH'']
        \<noteq> set [''BASIS_MOLOPT'', ''BASIS_ccGRB_UZH'', ''BASIS_ADMM_UZH'', ''GTH_POTENTIALS'']"
      by blast
    have "\<not> set [''BASIS_ccGRB_UZH'', ''BASIS_ADMM_UZH'', ''POTENTIAL_UZH'']
        \<subseteq> set [''BASIS_MOLOPT'', ''BASIS_ccGRB_UZH'', ''BASIS_ADMM_UZH'', ''GTH_POTENTIALS'']"
      by simp
    then have differ: "set [''BASIS_ccGRB_UZH'', ''BASIS_ADMM_UZH'', ''POTENTIAL_UZH'']
        \<noteq> set [''BASIS_MOLOPT'', ''BASIS_ccGRB_UZH'', ''BASIS_ADMM_UZH'', ''GTH_POTENTIALS'']"
      by blast
    show ?thesis
      unfolding names refs basis_names psubset_eq
      using submitted_builder(1) [OF b] basis pot strict differ
      by simp
  qed
  then show "\<exists>t.
     b_parameters b = Some (Dict t)
     \<and> get_path t [''FORCE_EVAL'', ''DFT'', ''BASIS_SET_FILE_NAME'']
         = Some (PList [PStr ''BASIS_ccGRB_UZH'', PStr ''BASIS_ADMM_UZH''])
     \<and> get_path t [''FORCE_EVAL'', ''DFT'', ''POTENTIAL_FILE_NAME''] = Some (PStr ''POTENTIAL_UZH'')
     \<and> attached_names b = [''BASIS_MOLOPT'', ''BASIS_ccGRB_UZH'', ''BASIS_ADMM_UZH'', ''GTH_POTENTIALS'']
     \<and> referenced_names t = [''BASIS_ccGRB_UZH'', ''BASIS_ADMM_UZH'', ''POTENTIAL_UZH'']
     \<and> ''BASIS_MOLOPT'' \<in> set (attached_names b) - set (referenced_names t)
     \<and> ''GTH_POTENTIALS'' \<in> set (attached_names b) - set (referenced_names t)
     \<and> ''POTENTIAL_UZH'' \<in> set (referenced_names t) - set (attached_names b)
     \<and> set (names_at t [''FORCE_EVAL'', ''DFT'', ''BASIS_SET_FILE_NAME'']) \<subset> set (attached_names b)
     \<and> set (referenced_names t) \<noteq> set (attached_names b)"
    by (rule exI)
qed

text \<open>The builder submitted in the sample installation shows the mismatch.\<close>

theorem C9_file_names_witness:
  "demo_submission \<in> set (submitted demo_ext (Code 5) demo_world)
   \<and> attached_names demo_submission = [''BASIS_MOLOPT'', ''BASIS_ccGRB_UZH'', ''BASIS_ADMM_UZH'', ''GTH_POTENTIALS'']
   \<and> (\<exists>t. b_parameters demo_submission = Some (Dict t)
        \<and> referenced_names t = [''BASIS_ccGRB_UZH'', ''BASIS_ADMM_UZH'', ''POTENTIAL_UZH''])"
  using C9_file_names [of demo_ext "Code 5" demo_world]
  by (auto simp add: demo_submitted)

subsection \<open>The command line\<close>

text \<open>
  Claim C2. When the lookup of the code label raises \<open>NotExistent\<close>, \<open>cli\<close> prints one
  line that names the label and leaves through \<open>sys.exit(1)\<close>: the exit status is 1, the
  log holds the lookup and that line and nothing else, so nothing of
  \<open>example_excitation\<close> has run and nothing was submitted.
\<close>

theorem C2_unknown_code:
  assumes "get_from_string ext l = Inl NotExistent"
  shows "cli ext l w = (Inl (SystemExit 1), w\<lparr>log := log w @
           [Call (Get_from_string l) (Some NotExistent),
            Print (''The code '' @ [CHR 0x27] @ l @ [CHR 0x27] @ '' does not exist.'')]\<rparr>)
       \<and> exit_status (fst (main ext [l] w)) = 1
       \<and> runs (cli_trace ext l w) = []
       \<and> Print ''Testing CP2K excited state ENERGY on acetylene (DFT-ADMM)...''
            \<notin> set (cli_trace ext l w)"
  using assms
  by (simp add: cli_not_existent main_one_argument cli_trace_def runs_def)

text \<open>The label \<open>nope\<close> is unknown in the sample installation.\<close>

theorem C2_unknown_code_witness:
  "get_from_string demo_ext ''nope'' = Inl NotExistent
   \<and> cli demo_ext ''nope'' bare_world = (Inl (SystemExit 1), bare_world\<lparr>log :=
        [Call (Get_from_string ''nope'') (Some NotExistent),
         Print (''The code '' @ [CHR 0x27] @ ''nope'' @ [CHR 0x27] @ '' does not exist.'')]\<rparr>)
   \<and> exit_status (fst (main demo_ext [''nope''] bare_world)) = 1"
proof -
  have h: "get_from_string demo_ext ''nope'' = Inl NotExistent"
    by (simp add: demo_ext_def)
  show ?thesis
    using h C2_unknown_code [OF h, of bare_world] by (simp add: bare_world_def)
qed

text \<open>
  Claim C4. When the lookup succeeds and the submission through \<open>run\<close> returns normally,
  \<open>cli\<close> returns and the exit status is 0. The command takes exactly one positional
  argument, the code label: with one argument the body runs on it, with any other number
  the command stops with a usage error before the body.
\<close>

theorem C4_success_exit:
  assumes "get_from_string ext l = Inr c"
    and "Call (Run b) None \<in> set (cli_trace ext l w)"
  shows "fst (cli ext l w) = Inr ()
       \<and> exit_status (fst (main ext [l] w)) = 0
       \<and> main ext [l] w = cli ext l w
       \<and> cli_arguments = [''codelabel'']
       \<and> (\<forall>args. length args \<noteq> 1 \<longrightarrow> main ext args w = (Inl (SystemExit 2), w))"
proof -
  let ?w1 = "w\<lparr>log := log w @ [Call (Get_from_string l) None]\<rparr>"
  from assms have ran: "Call (Run b) None \<in> set (trace ext c ?w1)"
    by (simp add: cli_trace_found)
  have "fst (example_excitation ext c ?w1) = Inr ()"
    using ran
    by (cases rule: outcome_cases [of ?w1 ext c])
       (auto simp add: outcome_def raised_def split: sum.splits)
  with assms(1) have "fst (cli ext l w) = Inr ()"
    by (simp add: cli_found)
  then show ?thesis
    by (simp add: main_one_argument main_usage_error cli_arguments_def)
qed

text \<open>In the sample installation the label \<open>cp2k@localhost\<close> is known and the submission returns.\<close>

theorem C4_success_exit_witness:
  "get_from_string demo_ext ''cp2k@localhost'' = Inr (Code 5)
   \<and> Call (Run demo_submission) None \<in> set (cli_trace demo_ext ''cp2k@localhost'' demo_world)
   \<and> exit_status (fst (main demo_ext [''cp2k@localhost''] demo_world)) = 0
   \<and> main demo_ext [] demo_world = (Inl (SystemExit 2), demo_world)"
proof -
  have h: "get_from_string demo_ext ''cp2k@localhost'' = Inr (Code 5)"
    by (simp add: demo_ext_def)
  have r: "Call (Run demo_submission) None \<in> set (cli_trace demo_ext ''cp2k@localhost'' demo_world)"
    using demo_outcome by (simp add: cli_trace_found [OF h] outcome_def)
  show ?thesis
    using h r C4_success_exit [OF h r] by simp
qed

subsection \<open>Submission\<close>




subsection \<open>Exceptions\<close>



subsection \<open>Files\<close>

text \<open>
  Claim C7. The files \<open>example_excitation\<close> opens are, in this order, the geometry
  \<open>../files/acetylene.xyz\<close> (through \<open>ase.io.read\<close>) and \<open>../files/BASIS_MOLOPT\<close>,
  \<open>../files/BASIS_ccGRB_UZH\<close>, \<open>../files/BASIS_ADMM_UZH\<close>, \<open>../files/GTH_POTENTIALS\<close>
  (through \<open>SinglefileData\<close>), all under the script's directory: every run opens an
  initial part of this list, a run that returns normally opens all five, and no other
  path matters, since two file systems that agree on these five paths give the same
  result and the same events.
\<close>

theorem C7_input_files:
  "prefix (reads (trace ext c w))
     [Ase_io_read (os_path_join (thisdir ext) [''..'', ''files'', ''acetylene.xyz'']),
      New_SinglefileData (os_path_join (thisdir ext) [''..'', ''files'', ''BASIS_MOLOPT'']),
      New_SinglefileData (os_path_join (thisdir ext) [''..'', ''files'', ''BASIS_ccGRB_UZH'']),
      New_SinglefileData (os_path_join (thisdir ext) [''..'', ''files'', ''BASIS_ADMM_UZH'']),
      New_SinglefileData (os_path_join (thisdir ext) [''..'', ''files'', ''GTH_POTENTIALS''])]
   \<and> (fst (example_excitation ext c w) = Inr () \<longrightarrow> reads (trace ext c w) =
     [Ase_io_read (os_path_join (thisdir ext) [''..'', ''files'', ''acetylene.xyz'']),
      New_SinglefileData (os_path_join (thisdir ext) [''..'', ''files'', ''BASIS_MOLOPT'']),
      New_SinglefileData (os_path_join (thisdir ext) [''..'', ''files'', ''BASIS_ccGRB_UZH'']),
      New_SinglefileData (os_path_join (thisdir ext) [''..'', ''files'', ''BASIS_ADMM_UZH'']),
      New_SinglefileData (os_path_join (thisdir ext) [''..'', ''files'', ''GTH_POTENTIALS''])])
   \<and> ((\<forall>n \<in> set [''acetylene.xyz'', ''BASIS_MOLOPT'', ''BASIS_ccGRB_UZH'', ''BASIS_ADMM_UZH'',
           ''GTH_POTENTIALS''].
         files w' (os_path_join (thisdir ext) [''..'', ''files'', n])
           = files w (os_path_join (thisdir ext) [''..'', ''files'', n])) \<longrightarrow>
       fst (example_excitation ext c w') = fst (example_excitation ext c w)
       \<and> trace ext c w' = trace ext c w)"
proof (intro conjI)
  show "prefix (reads (trace ext c w))
     [Ase_io_read (os_path_join (thisdir ext) [''..'', ''files'', ''acetylene.xyz'']),
      New_SinglefileData (os_path_join (thisdir ext) [''..'', ''files'', ''BASIS_MOLOPT'']),
      New_SinglefileData (os_path_join (thisdir ext) [''..'', ''files'', ''BASIS_ccGRB_UZH'']),
      New_SinglefileData (os_path_join (thisdir ext) [''..'', ''files'', ''BASIS_ADMM_UZH'']),
      New_SinglefileData (os_path_join (thisdir ext) [''..'', ''files'', ''GTH_POTENTIALS''])]"
    by (cases rule: outcome_cases [of w ext c])
       (simp_all add: observe_defs os_path_join_def)
  show "fst (example_excitation ext c w) = Inr () \<longrightarrow> reads (trace ext c w) =
     [Ase_io_read (os_path_join (thisdir ext) [''..'', ''files'', ''acetylene.xyz'']),
      New_SinglefileData (os_path_join (thisdir ext) [''..'', ''files'', ''BASIS_MOLOPT'']),
      New_SinglefileData (os_path_join (thisdir ext) [''..'', ''files'', ''BASIS_ccGRB_UZH'']),
      New_SinglefileData (os_path_join (thisdir ext) [''..'', ''files'', ''BASIS_ADMM_UZH'']),
      New_SinglefileData (os_path_join (thisdir ext) [''..'', ''files'', ''GTH_POTENTIALS''])]"
    by (cases rule: outcome_cases [of w ext c])
       (simp_all add: observe_defs os_path_join_def)
  show "(\<forall>n \<in> set [''acetylene.xyz'', ''BASIS_MOLOPT'', ''BASIS_ccGRB_UZH'', ''BASIS_ADMM_UZH'',
           ''GTH_POTENTIALS''].
         files w' (os_path_join (thisdir ext) [''..'', ''files'', n])
           = files w (os_path_join (thisdir ext) [''..'', ''files'', n])) \<longrightarrow>
       fst (example_excitation ext c w') = fst (example_excitation ext c w)
       \<and> trace ext c w' = trace ext c w"
  proof
    assume "\<forall>n \<in> set [''acetylene.xyz'', ''BASIS_MOLOPT'', ''BASIS_ccGRB_UZH'', ''BASIS_ADMM_UZH'',
           ''GTH_POTENTIALS''].
         files w' (os_path_join (thisdir ext) [''..'', ''files'', n])
           = files w (os_path_join (thisdir ext) [''..'', ''files'', n])"
    then have "outcome ext c w' = outcome ext c w"
      by (intro outcome_depends_on_inputs) (simp add: os_path_join_def)
    then show "fst (example_excitation ext c w') = fst (example_excitation ext c w)
       \<and> trace ext c w' = trace ext c w"
      by (simp add: outcome_def)
  qed
qed

text \<open>
  The sample installation, and the same installation with one more file beside the
  inputs: the five files are opened and the run is the same.
\<close>

theorem C7_input_files_witness:
  "fst (example_excitation demo_ext (Code 5) demo_world) = Inr ()
   \<and> reads (trace demo_ext (Code 5) demo_world) =
     [Ase_io_read [''/repo/examples/single_calculations'', ''..'', ''files'', ''acetylene.xyz''],
      New_SinglefileData [''/repo/examples/single_calculations'', ''..'', ''files'', ''BASIS_MOLOPT''],
      New_SinglefileData [''/repo/examples/single_calculations'', ''..'', ''files'', ''BASIS_ccGRB_UZH''],
      New_SinglefileData [''/repo/examples/single_calculations'', ''..'', ''files'', ''BASIS_ADMM_UZH''],
      New_SinglefileData [''/repo/examples/single_calculations'', ''..'', ''files'', ''GTH_POTENTIALS'']]
   \<and> trace demo_ext (Code 5) (demo_world\<lparr>files := (files demo_world)([''/tmp'', ''other''] \<mapsto> ''x'')\<rparr>)
       = trace demo_ext (Code 5) demo_world"
proof -
  have h: "fst (example_excitation demo_ext (Code 5) demo_world) = Inr ()"
    using demo_outcome by (simp add: outcome_def)
  have t: "thisdir demo_ext = ''/repo/examples/single_calculations''"
    by (simp add: demo_ext_def)
  show ?thesis
    using h C7_input_files [of demo_ext "Code 5" demo_world
        "demo_world\<lparr>files := (files demo_world)([''/tmp'', ''other''] \<mapsto> ''x'')\<rparr>"]
    by (simp add: t os_path_join_def)
qed

text \<open>
  Claim C8. Neither \<open>example_excitation\<close> nor \<open>cli\<close> (nor the command around it) writes a
  file: the file system after the run is the file system before it. What they leave
  behind is appended to the log, the lines printed and the call of \<open>run\<close> among it, and
  earlier log entries stay in place.
\<close>

theorem C8_no_file_written:
  "files (snd (example_excitation ext c w)) = files w
   \<and> log (snd (example_excitation ext c w)) = log w @ trace ext c w
   \<and> files (snd (cli ext l w)) = files w
   \<and> log (snd (cli ext l w)) = log w @ cli_trace ext l w
   \<and> files (snd (main ext args w)) = files w
   \<and> prefix (log w) (log (snd (main ext args w)))"
  using appends_main [of ext args]
  by (simp add: example_excitation_world cli_world appends_def)

end
